theory Spec2Isabelle
  imports Complex_Main
begin

section \<open>Data model\<close>

text \<open>
  The notebook \<^verbatim>\<open>02-agent-structured-output.ipynb\<close> builds two LangGraph agents that
  answer with a \<^verbatim>\<open>WeatherResponse\<close>. The values travelling in tool-call arguments are
  JSON values; Python floats are carried around and never computed with, so the float
  type is the type parameter \<open>'f\<close>.
\<close>

datatype 'f pyval =
    PNone
  | PBool bool
  | PInt int
  | PFloat 'f
  | PStr string

text \<open>A tool call is the dict \<^verbatim>\<open>{"name": ..., "args": ..., "id": ...}\<close>.\<close>

record 'f tool_call =
  tc_name :: string
  tc_args :: "(string \<times> 'f pyval) list"
  tc_id :: string

text \<open>
  The three kinds of chat message in the log: a human message, the model's reply
  (content and tool calls), a tool message (content and \<^verbatim>\<open>tool_call_id\<close>).
\<close>

datatype 'f message =
    Human string
  | Assistant string "'f tool_call list"
  | ToolMsg string string

datatype error =
    IndexError
  | AttributeError
  | KeyError
  | AssertionError string
  | ValidationError "string list"
  | BackendError string
  | UnknownToolError string
  | ToolArgumentError string
  | ToolExecutionError error
  | StructuredOutputError error

text \<open>
  \<^verbatim>\<open>class WeatherResponse(BaseModel)\<close>: the declared fields, in the order and with the
  names and types of the source. An instance is the list of its validated fields.
\<close>

datatype field_type = TFloat | TStr

definition WeatherResponse_fields :: "(string \<times> field_type) list" where
  "WeatherResponse_fields =
     [(''temperature'', TFloat), (''wind_directon'', TStr), (''wind_speed'', TFloat)]"

type_synonym 'f WeatherResponse = "(string \<times> 'f pyval) list"

text \<open>
  \<^verbatim>\<open>class AgentState(MessagesState)\<close>: the message log and the final response, which
  is absent until a node sets it.
\<close>

record 'f AgentState =
  messages :: "'f message list"
  final_response :: "'f WeatherResponse option"

text \<open>
  A node returns a partial state: the messages to add to the log (the reducer of
  \<^verbatim>\<open>MessagesState\<close> appends them) and, possibly, the final response.
\<close>

record 'f update =
  upd_messages :: "'f message list"
  upd_final_response :: "'f WeatherResponse option"

definition apply_update :: "'f AgentState \<Rightarrow> 'f update \<Rightarrow> 'f AgentState" where
  "apply_update state u =
     \<lparr>messages = messages state @ upd_messages u,
      final_response = (case upd_final_response u of
                          None \<Rightarrow> final_response state
                        | Some r \<Rightarrow> Some r)\<rparr>"

section \<open>Python accessors\<close>

text \<open>\<^verbatim>\<open>xs[-1]\<close> and \<^verbatim>\<open>xs[-2]\<close> raise IndexError on a list that is too short.\<close>

definition index_last :: "'a list \<Rightarrow> error + 'a" where
  "index_last xs = (if xs = [] then Inl IndexError else Inr (last xs))"

definition index_second_last :: "'a list \<Rightarrow> error + 'a" where
  "index_second_last xs =
     (if length xs < 2 then Inl IndexError else Inr (xs ! (length xs - 2)))"

text \<open>Only the model's reply has the attribute \<^verbatim>\<open>tool_calls\<close>.\<close>

fun tool_calls :: "'f message \<Rightarrow> error + 'f tool_call list" where
  "tool_calls (Assistant c tcs) = Inr tcs"
| "tool_calls (Human c) = Inl AttributeError"
| "tool_calls (ToolMsg c i) = Inl AttributeError"

fun content :: "'f message \<Rightarrow> string" where
  "content (Human c) = c"
| "content (Assistant c tcs) = c"
| "content (ToolMsg c i) = c"

section \<open>The tool\<close>

fun get_weather :: "string \<Rightarrow> error + string" where
  "get_weather city =
     (if city = ''paris'' then
        Inr ''It is cloudy in Paris, with 5 mph winds in the North-East direction and a temperature of 70 degrees''
      else if city = ''lille'' then
        Inr ''It is 65 degrees and raining in Lille, with 3 mph winds in the South-East direction''
      else if city = ''marseille'' then
        Inr ''It is 75 degrees and sunny in Marseille, with 3 mph winds in the South-East direction''
      else Inl (AssertionError ''Unknown city''))"

section \<open>Constructing a WeatherResponse\<close>

text \<open>
  \<^verbatim>\<open>WeatherResponse(**args)\<close> runs the constructor of pydantic's \<^verbatim>\<open>BaseModel\<close>. The
  class sets no model configuration and gives no field a default, so every declared
  field is required, an argument whose key is not a declared field is ignored
  (pydantic's default, \<^verbatim>\<open>extra='ignore'\<close>), and the error raised lists every field that
  is missing or invalid. Which values pydantic accepts for a \<^verbatim>\<open>float\<close> and for a
  \<^verbatim>\<open>str\<close> field (and what it converts them to) is left to the two parameters
  \<open>float_validator\<close> and \<open>str_validator\<close>.
\<close>

fun validate_field ::
  "('f pyval \<Rightarrow> 'f option) \<Rightarrow> ('f pyval \<Rightarrow> string option) \<Rightarrow> field_type \<Rightarrow> 'f pyval
     \<Rightarrow> 'f pyval option" where
  "validate_field float_validator str_validator TFloat v = map_option PFloat (float_validator v)"
| "validate_field float_validator str_validator TStr v = map_option PStr (str_validator v)"

fun validate_fields ::
  "('f pyval \<Rightarrow> 'f option) \<Rightarrow> ('f pyval \<Rightarrow> string option) \<Rightarrow> (string \<times> field_type) list
     \<Rightarrow> (string \<times> 'f pyval) list \<Rightarrow> string list \<times> 'f WeatherResponse" where
  "validate_fields float_validator str_validator [] kwargs = ([], [])"
| "validate_fields float_validator str_validator ((name, ty) # decls) kwargs =
     (case validate_fields float_validator str_validator decls kwargs of
        (errors, values) \<Rightarrow>
          (case map_of kwargs name of
             None \<Rightarrow> (name # errors, values)
           | Some v \<Rightarrow>
               (case validate_field float_validator str_validator ty v of
                  None \<Rightarrow> (name # errors, values)
                | Some v' \<Rightarrow> (errors, (name, v') # values))))"

definition BaseModel_init ::
  "('f pyval \<Rightarrow> 'f option) \<Rightarrow> ('f pyval \<Rightarrow> string option) \<Rightarrow> (string \<times> field_type) list
     \<Rightarrow> (string \<times> 'f pyval) list \<Rightarrow> error + 'f WeatherResponse" where
  "BaseModel_init float_validator str_validator decls kwargs =
     (case validate_fields float_validator str_validator decls kwargs of
        (errors, values) \<Rightarrow>
          if errors = [] then Inr values else Inl (ValidationError errors))"

definition WeatherResponse_init ::
  "('f pyval \<Rightarrow> 'f option) \<Rightarrow> ('f pyval \<Rightarrow> string option) \<Rightarrow> (string \<times> 'f pyval) list
     \<Rightarrow> error + 'f WeatherResponse" where
  "WeatherResponse_init float_validator str_validator kwargs =
     BaseModel_init float_validator str_validator WeatherResponse_fields kwargs"

text \<open>
  The least every pydantic version accepts: a float for a \<^verbatim>\<open>float\<close> field and a str for
  a \<^verbatim>\<open>str\<close> field, unchanged. The closed examples below are evaluated with them.
\<close>

fun accept_float :: "'f pyval \<Rightarrow> 'f option" where
  "accept_float (PFloat x) = Some x"
| "accept_float v = None"

fun accept_str :: "'f pyval \<Rightarrow> string option" where
  "accept_str (PStr s) = Some s"
| "accept_str v = None"

section \<open>The nodes that respond to the user\<close>

text \<open>Option 1: the answer is built from the arguments of the last tool call.\<close>

definition respond1 ::
  "('f pyval \<Rightarrow> 'f option) \<Rightarrow> ('f pyval \<Rightarrow> string option) \<Rightarrow> 'f AgentState
     \<Rightarrow> error + 'f update" where
  "respond1 float_validator str_validator state =
     (case index_last (messages state) of
        Inl e \<Rightarrow> Inl e
      | Inr last_message \<Rightarrow>
          (case tool_calls last_message of
             Inl e \<Rightarrow> Inl e
           | Inr [] \<Rightarrow> Inl IndexError
           | Inr (weather_tool_call # _) \<Rightarrow>
               (case WeatherResponse_init float_validator str_validator
                       (tc_args weather_tool_call) of
                  Inl e \<Rightarrow> Inl e
                | Inr response \<Rightarrow>
                    Inr \<lparr>upd_messages =
                           [ToolMsg ''Here is your structured response''
                              (tc_id weather_tool_call)],
                         upd_final_response = Some response\<rparr>)))"

text \<open>
  Option 2: the model with structured output is called on one human message holding
  the content of \<^verbatim>\<open>state["messages"][-2]\<close>. That model is outside the notebook: it is
  the parameter \<open>model_with_structured_output\<close>, which returns a
  \<^verbatim>\<open>WeatherResponse\<close> or fails.
\<close>

definition respond2 ::
  "('f message list \<Rightarrow> error + 'f WeatherResponse) \<Rightarrow> 'f AgentState \<Rightarrow> error + 'f update" where
  "respond2 model_with_structured_output state =
     (case index_second_last (messages state) of
        Inl e \<Rightarrow> Inl e
      | Inr m \<Rightarrow>
          (case model_with_structured_output [Human (content m)] of
             Inl e \<Rightarrow> Inl e
           | Inr response \<Rightarrow>
               Inr \<lparr>upd_messages = [], upd_final_response = Some response\<rparr>))"

text \<open>
  Modelled from the spec: \<^verbatim>\<open>model.with_structured_output(WeatherResponse)\<close>, which is
  langchain's. Following section 4.5 of the specification, the model is called in the
  mode that constrains its output to the schema, and its response, the arguments it
  gives for the fields, is parsed as the record by the constructor of the class; a
  response that does not parse is surfaced as StructuredOutputError. The model called
  in that mode is the parameter \<open>schema_model\<close>.
\<close>

definition with_structured_output ::
  "('f pyval \<Rightarrow> 'f option) \<Rightarrow> ('f pyval \<Rightarrow> string option)
     \<Rightarrow> ('f message list \<Rightarrow> error + (string \<times> 'f pyval) list)
     \<Rightarrow> 'f message list \<Rightarrow> error + 'f WeatherResponse" where
  "with_structured_output float_validator str_validator schema_model input =
     (case schema_model input of
        Inl e \<Rightarrow> Inl e
      | Inr args \<Rightarrow>
          (case WeatherResponse_init float_validator str_validator args of
             Inl e \<Rightarrow> Inl (StructuredOutputError e)
           | Inr response \<Rightarrow> Inr response))"

section \<open>Routers\<close>

datatype route = Respond | Continue

text \<open>Option 1 (the output schema bound as a tool).\<close>

definition should_continue1 :: "'f AgentState \<Rightarrow> error + route" where
  "should_continue1 state =
     (case index_last (messages state) of
        Inl e \<Rightarrow> Inl e
      | Inr last_message \<Rightarrow>
          (case tool_calls last_message of
             Inl e \<Rightarrow> Inl e
           | Inr tcs \<Rightarrow>
               if length tcs = 1 \<and> tc_name (tcs ! 0) = ''WeatherResponse''
               then Inr Respond
               else Inr Continue))"

text \<open>Option 2 (two models).\<close>

definition should_continue2 :: "'f AgentState \<Rightarrow> error + route" where
  "should_continue2 state =
     (case index_last (messages state) of
        Inl e \<Rightarrow> Inl e
      | Inr last_message \<Rightarrow>
          (case tool_calls last_message of
             Inl e \<Rightarrow> Inl e
           | Inr tcs \<Rightarrow> if tcs = [] then Inr Respond else Inr Continue))"

section \<open>The agent node\<close>

text \<open>
  The chat model is outside the notebook: it is the parameter \<open>model\<close>, which maps
  the log to the content and the tool calls of its reply, or fails. Both options
  define \<^verbatim>\<open>call_model\<close> the same way, each around its own bound model.
\<close>

type_synonym 'f chat_model = "'f message list \<Rightarrow> error + string \<times> 'f tool_call list"

definition call_model :: "'f chat_model \<Rightarrow> 'f AgentState \<Rightarrow> error + 'f update" where
  "call_model model state =
     (case model (messages state) of
        Inl e \<Rightarrow> Inl e
      | Inr (c, tcs) \<Rightarrow> Inr \<lparr>upd_messages = [Assistant c tcs], upd_final_response = None\<rparr>)"

section \<open>The tool node\<close>

type_synonym 'f tool = "(string \<times> 'f pyval) list \<Rightarrow> error + string"

text \<open>
  Modelled from the spec: the tool decorator around \<^verbatim>\<open>get_weather\<close>, which is
  langchain's. The declared parameter contract is
  \<^verbatim>\<open>city: Literal["paris", "lille", "marseille"]\<close>. Following section 4.4 of the
  specification, a call whose arguments do not satisfy the contract (no \<^verbatim>\<open>city\<close>, a
  \<^verbatim>\<open>city\<close> that is not a string, or a string that is not one of the three literals)
  fails with ToolArgumentError before the tool runs, and an exception raised by the
  tool itself is surfaced as ToolExecutionError.
\<close>

definition get_weather_tool :: "'f tool" where
  "get_weather_tool args =
     (case map_of args ''city'' of
        Some (PStr city) \<Rightarrow>
          if city \<in> {''paris'', ''lille'', ''marseille''} then
            (case get_weather city of
               Inl e \<Rightarrow> Inl (ToolExecutionError e)
             | Inr text \<Rightarrow> Inr text)
          else Inl (ToolArgumentError ''city'')
      | _ \<Rightarrow> Inl (ToolArgumentError ''city''))"

text \<open>
  \<^verbatim>\<open>tools = [get_weather, WeatherResponse]\<close>, by name. What running the schema class as
  a tool returns is the library's and is the parameter \<open>schema_tool\<close>.
\<close>

definition tools1 :: "'f tool \<Rightarrow> (string \<times> 'f tool) list" where
  "tools1 schema_tool = [(''get_weather'', get_weather_tool), (''WeatherResponse'', schema_tool)]"

text \<open>
  Modelled from the spec: the Tool Executor, which the notebook takes from langgraph
  (\<^verbatim>\<open>ToolNode(tools)\<close>). Following section 4.4 of the specification: for each tool
  call of the routed message, in order, the tool is looked up by name (UnknownToolError
  when absent) and invoked with the arguments, and a tool message with the call's id
  and the tool's text is added; the first failure aborts the invocation.
\<close>

fun run_tool_calls :: "(string \<times> 'f tool) list \<Rightarrow> 'f tool_call list \<Rightarrow> error + 'f message list" where
  "run_tool_calls registry [] = Inr []"
| "run_tool_calls registry (tc # tcs) =
     (case map_of registry (tc_name tc) of
        None \<Rightarrow> Inl (UnknownToolError (tc_name tc))
      | Some t \<Rightarrow>
          (case t (tc_args tc) of
             Inl e \<Rightarrow> Inl e
           | Inr text \<Rightarrow>
               (case run_tool_calls registry tcs of
                  Inl e \<Rightarrow> Inl e
                | Inr results \<Rightarrow> Inr (ToolMsg text (tc_id tc) # results))))"

text \<open>
  Modelled from the spec: the node \<^verbatim>\<open>ToolNode(tools)\<close> itself, which is langgraph's. It
  runs the tool calls of the last message of the log and returns the tool messages to
  add; a last message without tool calls attribute, or a failing tool, stops the run.
\<close>

definition ToolNode :: "(string \<times> 'f tool) list \<Rightarrow> 'f AgentState \<Rightarrow> error + 'f update" where
  "ToolNode registry state =
     (case index_last (messages state) of
        Inl e \<Rightarrow> Inl e
      | Inr last_message \<Rightarrow>
          (case tool_calls last_message of
             Inl e \<Rightarrow> Inl e
           | Inr tcs \<Rightarrow>
               (case run_tool_calls registry tcs of
                  Inl e \<Rightarrow> Inl e
                | Inr results \<Rightarrow>
                    Inr \<lparr>upd_messages = results, upd_final_response = None\<rparr>)))"

section \<open>The graph\<close>

text \<open>
  Both options wire the same graph: the entry point is \<^verbatim>\<open>agent\<close>; after \<^verbatim>\<open>agent\<close> the
  conditional edge sends \<^verbatim>\<open>continue\<close> to \<^verbatim>\<open>tools\<close> and \<^verbatim>\<open>respond\<close> to \<^verbatim>\<open>respond\<close>;
  \<^verbatim>\<open>tools\<close> goes back to \<^verbatim>\<open>agent\<close>; \<^verbatim>\<open>respond\<close> goes to \<^verbatim>\<open>END\<close>.
\<close>

datatype node = AGENT | TOOLS | RESPOND | END

record 'f workflow =
  agent_node :: "'f AgentState \<Rightarrow> error + 'f update"
  respond_node :: "'f AgentState \<Rightarrow> error + 'f update"
  tools_node :: "'f AgentState \<Rightarrow> error + 'f update"
  should_continue :: "'f AgentState \<Rightarrow> error + route"

fun conditional_edges :: "route \<Rightarrow> node" where
  "conditional_edges Continue = TOOLS"
| "conditional_edges Respond = RESPOND"

definition workflow1 ::
  "'f chat_model \<Rightarrow> ('f pyval \<Rightarrow> 'f option) \<Rightarrow> ('f pyval \<Rightarrow> string option)
     \<Rightarrow> ('f AgentState \<Rightarrow> error + 'f update) \<Rightarrow> 'f workflow" where
  "workflow1 model_with_response_tool float_validator str_validator tool_node =
     \<lparr>agent_node = call_model model_with_response_tool,
      respond_node = respond1 float_validator str_validator,
      tools_node = tool_node,
      should_continue = should_continue1\<rparr>"

definition workflow2 ::
  "'f chat_model \<Rightarrow> ('f message list \<Rightarrow> error + 'f WeatherResponse)
     \<Rightarrow> ('f AgentState \<Rightarrow> error + 'f update) \<Rightarrow> 'f workflow" where
  "workflow2 model_with_tools model_with_structured_output tool_node =
     \<lparr>agent_node = call_model model_with_tools,
      respond_node = respond2 model_with_structured_output,
      tools_node = tool_node,
      should_continue = should_continue2\<rparr>"

text \<open>One node of the graph runs, its update is applied, and the outgoing edge is taken.\<close>

fun step :: "'f workflow \<Rightarrow> node \<times> 'f AgentState \<Rightarrow> error + node \<times> 'f AgentState" where
  "step g (AGENT, state) =
     (case agent_node g state of
        Inl e \<Rightarrow> Inl e
      | Inr u \<Rightarrow>
          (case should_continue g (apply_update state u) of
             Inl e \<Rightarrow> Inl e
           | Inr r \<Rightarrow> Inr (conditional_edges r, apply_update state u)))"
| "step g (TOOLS, state) =
     (case tools_node g state of
        Inl e \<Rightarrow> Inl e
      | Inr u \<Rightarrow> Inr (AGENT, apply_update state u))"
| "step g (RESPOND, state) =
     (case respond_node g state of
        Inl e \<Rightarrow> Inl e
      | Inr u \<Rightarrow> Inr (END, apply_update state u))"
| "step g (END, state) = Inr (END, state)"

text \<open>The configuration after \<open>k\<close> steps, or the error that stopped the run.\<close>

fun steps :: "nat \<Rightarrow> 'f workflow \<Rightarrow> node \<times> 'f AgentState \<Rightarrow> error + node \<times> 'f AgentState" where
  "steps 0 g cfg = Inr cfg"
| "steps (Suc k) g cfg =
     (case step g cfg of
        Inl e \<Rightarrow> Inl e
      | Inr cfg' \<Rightarrow> steps k g cfg')"

text \<open>
  The graph has no bound on its loop, so the run takes fuel: \<open>None\<close> is a run that has
  not reached \<^verbatim>\<open>END\<close> within the fuel, \<open>Some (Inl e)\<close> a run stopped by the exception
  \<open>e\<close>, \<open>Some (Inr state)\<close> the state at \<^verbatim>\<open>END\<close>.
\<close>

fun run :: "nat \<Rightarrow> 'f workflow \<Rightarrow> node \<times> 'f AgentState \<Rightarrow> (error + 'f AgentState) option" where
  "run fuel g (END, state) = Some (Inr state)"
| "run 0 g (n, state) = None"
| "run (Suc fuel) g (n, state) =
     (case step g (n, state) of
        Inl e \<Rightarrow> Some (Inl e)
      | Inr cfg' \<Rightarrow> run fuel g cfg')"

text \<open>
  \<^verbatim>\<open>graph.invoke(input={"messages": [("human", seed)]})["final_response"]\<close>.
\<close>

definition initial :: "string \<Rightarrow> 'f AgentState" where
  "initial seed = \<lparr>messages = [Human seed], final_response = None\<rparr>"

definition invoke :: "nat \<Rightarrow> 'f workflow \<Rightarrow> string \<Rightarrow> (error + 'f WeatherResponse) option" where
  "invoke fuel g seed =
     (case run fuel g (AGENT, initial seed) of
        None \<Rightarrow> None
      | Some (Inl e) \<Rightarrow> Some (Inl e)
      | Some (Inr state) \<Rightarrow>
          (case final_response state of
             None \<Rightarrow> Some (Inl KeyError)
           | Some response \<Rightarrow> Some (Inr response)))"

section \<open>Well-paired logs\<close>

text \<open>
  The ids of the tool messages that follow a model reply, up to the next model reply.
\<close>

fun result_ids :: "'f message list \<Rightarrow> string list" where
  "result_ids [] = []"
| "result_ids (ToolMsg c i # ms) = i # result_ids ms"
| "result_ids (Human c # ms) = result_ids ms"
| "result_ids (Assistant c tcs # ms) = []"

fun is_Assistant :: "'f message \<Rightarrow> bool" where
  "is_Assistant (Assistant c tcs) = True"
| "is_Assistant (Human c) = False"
| "is_Assistant (ToolMsg c i) = False"

text \<open>Every tool call of \<open>tcs\<close> has exactly one tool message with its id in \<open>following\<close>.\<close>

definition answered_once :: "'f tool_call list \<Rightarrow> 'f message list \<Rightarrow> bool" where
  "answered_once tcs following =
     list_all (\<lambda>tc. count_list (result_ids following) (tc_id tc) = 1) tcs"

text \<open>
  The pairing invariant: the tool calls of every model reply that is followed by
  another model reply are answered exactly once in between.
\<close>

fun paired_before_next :: "'f message list \<Rightarrow> bool" where
  "paired_before_next [] = True"
| "paired_before_next (Assistant c tcs # ms) =
     ((list_ex is_Assistant ms \<longrightarrow> answered_once tcs ms) \<and> paired_before_next ms)"
| "paired_before_next (Human c # ms) = paired_before_next ms"
| "paired_before_next (ToolMsg c i # ms) = paired_before_next ms"

text \<open>The same for every model reply of the log, the last one too.\<close>

fun all_answered :: "'f message list \<Rightarrow> bool" where
  "all_answered [] = True"
| "all_answered (Assistant c tcs # ms) = (answered_once tcs ms \<and> all_answered ms)"
| "all_answered (Human c # ms) = all_answered ms"
| "all_answered (ToolMsg c i # ms) = all_answered ms"

section \<open>Invariants of a run\<close>

text \<open>
  What holds of the log at each node: before \<^verbatim>\<open>agent\<close> and at \<^verbatim>\<open>END\<close> every model reply
  is answered; before \<^verbatim>\<open>tools\<close> and \<^verbatim>\<open>respond\<close> the log ends with the reply just made and
  every earlier reply is answered. The reply routed to \<^verbatim>\<open>respond\<close> has \<open>k\<close> tool calls
  (one in option 1, none in option 2).
\<close>

fun log_invariant :: "nat \<Rightarrow> node \<times> 'f AgentState \<Rightarrow> bool" where
  "log_invariant k (AGENT, state) = all_answered (messages state)"
| "log_invariant k (TOOLS, state) =
     (\<exists>earlier c tcs. messages state = earlier @ [Assistant c tcs] \<and> all_answered earlier
        \<and> distinct (map tc_id tcs))"
| "log_invariant k (RESPOND, state) =
     (\<exists>earlier c tcs. messages state = earlier @ [Assistant c tcs] \<and> all_answered earlier
        \<and> length tcs = k)"
| "log_invariant k (END, state) = all_answered (messages state)"

text \<open>
  Where the final response of option 1 comes from: the reply routed to \<^verbatim>\<open>respond\<close> is a
  reply of the model with the schema call as its only tool call, and the final response
  at \<^verbatim>\<open>END\<close> is what validation returns for the arguments of such a call.
\<close>

fun answer_origin ::
  "'f chat_model \<Rightarrow> ('f pyval \<Rightarrow> 'f option) \<Rightarrow> ('f pyval \<Rightarrow> string option)
     \<Rightarrow> node \<times> 'f AgentState \<Rightarrow> bool" where
  "answer_origin model vf vs (AGENT, state) = True"
| "answer_origin model vf vs (TOOLS, state) = True"
| "answer_origin model vf vs (RESPOND, state) =
     (\<exists>history c tc. index_last (messages state) = Inr (Assistant c [tc])
        \<and> model history = Inr (c, [tc]) \<and> tc_name tc = ''WeatherResponse'')"
| "answer_origin model vf vs (END, state) =
     (\<exists>history c tc response. final_response state = Some response
        \<and> model history = Inr (c, [tc]) \<and> tc_name tc = ''WeatherResponse''
        \<and> WeatherResponse_init vf vs (tc_args tc) = Inr response)"

section \<open>A recorded run\<close>

text \<open>
  A stub for the chat model of option 1 on the seed of the notebook's demonstration:
  it first asks for the weather in Lille, then answers with the \<^verbatim>\<open>WeatherResponse\<close>
  call whose arguments are the answer the notebook's output cell shows,
  \<^verbatim>\<open>WeatherResponse(temperature=65.0, wind_directon='N', wind_speed=15.0)\<close>.
\<close>

definition recorded_model :: "real chat_model" where
  "recorded_model history =
     (if length history = 1 then
        Inr ([], [\<lparr>tc_name = ''get_weather'', tc_args = [(''city'', PStr ''lille'')],
                   tc_id = ''call_1''\<rparr>])
      else
        Inr ([], [\<lparr>tc_name = ''WeatherResponse'',
                   tc_args = [(''temperature'', PFloat 65), (''wind_directon'', PStr ''N''),
                              (''wind_speed'', PFloat 15)],
                   tc_id = ''call_2''\<rparr>]))"

section \<open>Router theorems\<close>

text \<open>
  C1. Option 1: whatever the earlier log, when the last message is a model reply the
  router answers \<open>Respond\<close> exactly when the reply has one tool call and that call is
  named \<^verbatim>\<open>WeatherResponse\<close>, and \<open>Continue\<close> otherwise; a reply holding the schema
  call next to any other call, in either order, is routed to \<open>Continue\<close>.
\<close>

theorem should_continue1_route:
  "should_continue1 \<lparr>messages = earlier @ [Assistant c tcs], final_response = fr\<rparr> =
     Inr (if (\<exists>tc. tcs = [tc] \<and> tc_name tc = ''WeatherResponse'') then Respond else Continue)
   \<and> should_continue1
       \<lparr>messages = earlier @ [Assistant c (before @ schema_call # other # rest)],
        final_response = fr\<rparr> = Inr Continue
   \<and> should_continue1
       \<lparr>messages = earlier @ [Assistant c (other # before @ schema_call # rest)],
        final_response = fr\<rparr> = Inr Continue"
proof -
  have one: "length tcs = 1 \<longleftrightarrow> (\<exists>tc. tcs = [tc])"
    by (cases tcs) auto
  have first: "should_continue1 \<lparr>messages = earlier @ [Assistant c tcs], final_response = fr\<rparr> =
     Inr (if (\<exists>tc. tcs = [tc] \<and> tc_name tc = ''WeatherResponse'') then Respond else Continue)"
    unfolding should_continue1_def index_last_def using one by auto
  have second: "should_continue1
       \<lparr>messages = earlier @ [Assistant c (before @ schema_call # other # rest)],
        final_response = fr\<rparr> = Inr Continue"
    unfolding should_continue1_def index_last_def by simp
  have third: "should_continue1
       \<lparr>messages = earlier @ [Assistant c (other # before @ schema_call # rest)],
        final_response = fr\<rparr> = Inr Continue"
    unfolding should_continue1_def index_last_def by simp
  from first second third show ?thesis by blast
qed

text \<open>
  C2. Option 2: when the last message is a model reply the router answers \<open>Respond\<close>
  exactly when the reply has no tool call and \<open>Continue\<close> exactly when it has one or
  more.
\<close>

theorem should_continue2_route:
  "should_continue2 \<lparr>messages = earlier @ [Assistant c tcs], final_response = fr\<rparr> =
     Inr (if length tcs = 0 then Respond else Continue)
   \<and> should_continue2 \<lparr>messages = earlier @ [Assistant c tcs], final_response = fr\<rparr> =
     Inr (if 1 \<le> length tcs then Continue else Respond)"
  unfolding should_continue2_def index_last_def by (cases tcs) auto

section \<open>Validation lemmas\<close>

lemma validate_fields_names:
  "validate_fields vf vs decls kwargs = ([], vals) \<Longrightarrow> map fst vals = map fst decls"
  by (induction decls arbitrary: vals) (auto split: prod.splits option.splits)

lemma validate_fields_cong:
  "(\<And>n. n \<in> fst ` set decls \<Longrightarrow> map_of kw1 n = map_of kw2 n) \<Longrightarrow>
   validate_fields vf vs decls kw1 = validate_fields vf vs decls kw2"
  by (induction decls) (auto split: prod.splits option.splits)

lemma map_of_filter_key:
  "map_of (filter (\<lambda>kv. P (fst kv)) kwargs) k = (if P k then map_of kwargs k else None)"
  by (induction kwargs) auto

lemma WeatherResponse_init_cong:
  assumes "map_of kw1 ''temperature'' = map_of kw2 ''temperature''"
    and "map_of kw1 ''wind_directon'' = map_of kw2 ''wind_directon''"
    and "map_of kw1 ''wind_speed'' = map_of kw2 ''wind_speed''"
  shows "WeatherResponse_init vf vs kw1 = WeatherResponse_init vf vs kw2"
proof -
  have "validate_fields vf vs WeatherResponse_fields kw1 =
        validate_fields vf vs WeatherResponse_fields kw2"
    by (rule validate_fields_cong) (use assms in \<open>auto simp: WeatherResponse_fields_def\<close>)
  then show ?thesis
    by (simp add: WeatherResponse_init_def BaseModel_init_def)
qed

lemma WeatherResponse_init_shape:
  "WeatherResponse_init vf vs kwargs = Inr r \<Longrightarrow>
   \<exists>t d w. r = [(''temperature'', PFloat t), (''wind_directon'', PStr d), (''wind_speed'', PFloat w)]"
  unfolding WeatherResponse_init_def BaseModel_init_def WeatherResponse_fields_def
  by (auto split: prod.splits option.splits if_splits)

section \<open>Theorems about the responding nodes\<close>

text \<open>
  C3, as stated, fails: an unknown field is not rejected. With the arguments of a
  complete answer and one more key, \<^verbatim>\<open>humidity\<close>, the node of option 1 returns a
  record.
\<close>

theorem respond1_unknown_field_accepted:
  "respond1 accept_float accept_str
     \<lparr>messages =
        [Human ''what's the weather in Lille?'',
         Assistant []
           [\<lparr>tc_name = ''WeatherResponse'',
             tc_args = [(''temperature'', PFloat (65::real)), (''wind_directon'', PStr ''SE''),
                        (''wind_speed'', PFloat 3), (''humidity'', PInt 80)],
             tc_id = ''call_1''\<rparr>]],
      final_response = None\<rparr>
   = Inr \<lparr>upd_messages = [ToolMsg ''Here is your structured response'' ''call_1''],
          upd_final_response =
            Some [(''temperature'', PFloat 65), (''wind_directon'', PStr ''SE''),
                  (''wind_speed'', PFloat 3)]\<rparr>"
  by (simp add: respond1_def index_last_def WeatherResponse_init_def BaseModel_init_def
      WeatherResponse_fields_def)

text \<open>
  C5 at the failing input. In option 2 the model may answer the seed without calling
  a tool. The log then is the seed and the reply, the router answers \<open>Respond\<close>, and
  the model with structured output is called on a human message holding the seed:
  the log has no tool message, and \<^verbatim>\<open>state["messages"][-2]\<close> is the human message.
\<close>

theorem respond2_without_tool_message:
  "should_continue2 \<lparr>messages = [Human seed, Assistant reply []], final_response = None\<rparr>
     = Inr Respond
   \<and> respond2 model_with_structured_output
       \<lparr>messages = [Human seed, Assistant reply []], final_response = None\<rparr>
     = (case model_with_structured_output [Human seed] of
          Inl e \<Rightarrow> Inl e
        | Inr response \<Rightarrow> Inr \<lparr>upd_messages = [], upd_final_response = Some response\<rparr>)"
  by (simp add: should_continue2_def respond2_def index_last_def index_second_last_def)

text \<open>
  C9. When the node of option 2 succeeds it adds no message and sets the final
  response only, so the state after it has the log it was given; the node of option
  1, when it succeeds, adds one tool message to the log.
\<close>

theorem respond2_keeps_log:
  "(respond2 model_with_structured_output state = Inr u \<longrightarrow>
      upd_messages u = [] \<and> upd_final_response u \<noteq> None
      \<and> messages (apply_update state u) = messages state
      \<and> final_response (apply_update state u) = upd_final_response u)
   \<and> (respond1 vf vs state = Inr u1 \<longrightarrow>
      (\<exists>i. messages (apply_update state u1) =
              messages state @ [ToolMsg ''Here is your structured response'' i]))"
proof (intro conjI impI)
  assume ok: "respond2 model_with_structured_output state = Inr u"
  then have u: "upd_messages u = [] \<and> upd_final_response u \<noteq> None"
    unfolding respond2_def by (auto split: sum.splits)
  then show "upd_messages u = []" and "upd_final_response u \<noteq> None"
    by simp_all
  from u show "messages (apply_update state u) = messages state"
    by (simp add: apply_update_def)
  from u show "final_response (apply_update state u) = upd_final_response u"
    by (auto simp: apply_update_def)
next
  assume "respond1 vf vs state = Inr u1"
  then show "\<exists>i. messages (apply_update state u1) =
              messages state @ [ToolMsg ''Here is your structured response'' i]"
    unfolding respond1_def by (auto simp: apply_update_def split: sum.splits list.splits)
qed

theorem respond2_keeps_log_witness:
  "respond2 (\<lambda>ms. Inr [(''temperature'', PFloat (70::real)), (''wind_directon'', PStr ''NE''),
                        (''wind_speed'', PFloat 8)])
     \<lparr>messages = [Human ''what's the weather in Paris?'', ToolMsg ''It is cloudy'' ''call_1'',
                  Assistant ''It is cloudy in Paris'' []],
      final_response = None\<rparr>
   = Inr \<lparr>upd_messages = [],
          upd_final_response =
            Some [(''temperature'', PFloat 70), (''wind_directon'', PStr ''NE''),
                  (''wind_speed'', PFloat 8)]\<rparr>
   \<and> messages (apply_update
        \<lparr>messages = [Human ''what's the weather in Paris?'', ToolMsg ''It is cloudy'' ''call_1'',
                     Assistant ''It is cloudy in Paris'' []],
         final_response = None\<rparr>
        \<lparr>upd_messages = [],
         upd_final_response =
           Some [(''temperature'', PFloat (70::real)), (''wind_directon'', PStr ''NE''),
                 (''wind_speed'', PFloat 8)]\<rparr>)
     = [Human ''what's the weather in Paris?'', ToolMsg ''It is cloudy'' ''call_1'',
        Assistant ''It is cloudy in Paris'' []]
   \<and> respond1 accept_float accept_str
       \<lparr>messages =
          [Assistant []
            [\<lparr>tc_name = ''WeatherResponse'',
              tc_args = [(''temperature'', PFloat (70::real)), (''wind_directon'', PStr ''NE''),
                         (''wind_speed'', PFloat 8)],
              tc_id = ''call_2''\<rparr>]],
        final_response = None\<rparr>
     = Inr \<lparr>upd_messages = [ToolMsg ''Here is your structured response'' ''call_2''],
            upd_final_response =
              Some [(''temperature'', PFloat 70), (''wind_directon'', PStr ''NE''),
                    (''wind_speed'', PFloat 8)]\<rparr>"
proof -
  let ?sm = "\<lambda>ms::real message list. Inr [(''temperature'', PFloat (70::real)),
               (''wind_directon'', PStr ''NE''), (''wind_speed'', PFloat 8)]"
  let ?s = "\<lparr>messages = [Human ''what's the weather in Paris?'',
                ToolMsg ''It is cloudy'' ''call_1'', Assistant ''It is cloudy in Paris'' []],
              final_response = None :: real WeatherResponse option\<rparr>"
  let ?u = "\<lparr>upd_messages = [] :: real message list,
              upd_final_response =
                Some [(''temperature'', PFloat (70::real)), (''wind_directon'', PStr ''NE''),
                      (''wind_speed'', PFloat 8)]\<rparr>"
  let ?s1 = "\<lparr>messages =
          [Assistant []
            [\<lparr>tc_name = ''WeatherResponse'',
              tc_args = [(''temperature'', PFloat (70::real)), (''wind_directon'', PStr ''NE''),
                         (''wind_speed'', PFloat 8)],
              tc_id = ''call_2''\<rparr>]],
        final_response = None\<rparr>"
  let ?u1 = "\<lparr>upd_messages = [ToolMsg ''Here is your structured response'' ''call_2''],
            upd_final_response =
              Some [(''temperature'', PFloat (70::real)), (''wind_directon'', PStr ''NE''),
                    (''wind_speed'', PFloat 8)]\<rparr>"
  have h: "respond2 ?sm ?s = Inr ?u"
    by (simp add: respond2_def index_second_last_def)
  have h1: "respond1 accept_float accept_str ?s1 = Inr ?u1"
    by (simp add: respond1_def index_last_def WeatherResponse_init_def BaseModel_init_def
        WeatherResponse_fields_def)
  from respond2_keeps_log [of ?sm ?s ?u] h
  have "messages (apply_update ?s ?u) = messages ?s"
    by blast
  with h h1 show ?thesis by simp
qed

section \<open>Lemmas about runs\<close>

lemma count_list_distinct:
  "distinct xs \<Longrightarrow> x \<in> set xs \<Longrightarrow> count_list xs x = 1"
  by (induction xs) auto

lemma result_ids_append_Assistant:
  "result_ids (xs @ Assistant c tcs # ys) = result_ids xs"
  by (induction xs rule: result_ids.induct) auto

lemma answered_once_append_Assistant:
  "answered_once tcs' (xs @ Assistant c tcs # ys) = answered_once tcs' xs"
  by (simp add: answered_once_def result_ids_append_Assistant)

lemma all_answered_append:
  "all_answered (earlier @ Assistant c tcs # ys) =
     (all_answered earlier \<and> answered_once tcs ys \<and> all_answered ys)"
  by (induction earlier rule: all_answered.induct)
     (auto simp: answered_once_append_Assistant)

lemma paired_before_next_append:
  "paired_before_next (earlier @ Assistant c tcs # ys) =
     (all_answered earlier \<and> paired_before_next (Assistant c tcs # ys))"
  by (induction earlier rule: all_answered.induct)
     (auto simp: answered_once_append_Assistant)

lemma all_answered_paired: "all_answered ms \<Longrightarrow> paired_before_next ms"
  by (induction ms rule: all_answered.induct) auto

lemma run_tool_calls_results:
  "run_tool_calls registry tcs = Inr results \<Longrightarrow>
   result_ids results = map tc_id tcs \<and> all_answered results"
  by (induction tcs arbitrary: results) (auto split: option.splits sum.splits)

lemma answered_once_distinct:
  "distinct (map tc_id tcs) \<Longrightarrow> result_ids results = map tc_id tcs \<Longrightarrow> answered_once tcs results"
  by (simp add: answered_once_def list_all_iff count_list_distinct)

lemma index_last_snoc: "index_last (xs @ [x]) = Inr x"
  by (simp add: index_last_def)

lemma step_invariant1:
  assumes ids: "\<And>history c tcs. model history = Inr (c, tcs) \<Longrightarrow> distinct (map tc_id tcs)"
    and inv: "log_invariant 1 cfg"
    and st: "step (workflow1 model vf vs (ToolNode registry)) cfg = Inr cfg'"
  shows "log_invariant 1 cfg'"
proof -
  obtain n state where cfg: "cfg = (n, state)" by (cases cfg)
  show ?thesis
  proof (cases n)
    case AGENT
    from st cfg AGENT obtain c tcs r where
      m: "model (messages state) = Inr (c, tcs)"
      and r: "should_continue1 (apply_update state \<lparr>upd_messages = [Assistant c tcs], upd_final_response = None\<rparr>) = Inr r"
      and cfg': "cfg' = (conditional_edges r, apply_update state \<lparr>upd_messages = [Assistant c tcs], upd_final_response = None\<rparr>)"
      by (auto simp: workflow1_def call_model_def split: sum.splits prod.splits)
    from inv cfg AGENT have a: "all_answered (messages state)" by simp
    from ids m have d: "distinct (map tc_id tcs)" by blast
    show ?thesis
    proof (cases r)
      case Respond
      with r have "length tcs = 1"
        by (auto simp: should_continue1_def apply_update_def index_last_snoc split: if_splits)
      with a cfg' Respond show ?thesis by (simp add: apply_update_def)
    next
      case Continue
      with a d cfg' show ?thesis by (simp add: apply_update_def)
    qed
  next
    case TOOLS
    from inv cfg TOOLS obtain earlier c tcs where
      ms: "messages state = earlier @ [Assistant c tcs]" and a: "all_answered earlier"
      and d: "distinct (map tc_id tcs)" by auto
    from st cfg TOOLS ms obtain results where
      res: "run_tool_calls registry tcs = Inr results"
      and cfg': "cfg' = (AGENT, apply_update state \<lparr>upd_messages = results, upd_final_response = None\<rparr>)"
      by (auto simp: workflow1_def ToolNode_def index_last_snoc split: sum.splits)
    from run_tool_calls_results [OF res] d
    have "answered_once tcs results" and "all_answered results"
      by (simp_all add: answered_once_distinct)
    with a ms cfg' show ?thesis
      by (simp add: apply_update_def all_answered_append)
  next
    case RESPOND
    from inv cfg RESPOND obtain earlier c tc where
      ms: "messages state = earlier @ [Assistant c [tc]]" and a: "all_answered earlier"
      by (auto simp: length_Suc_conv)
    from st cfg RESPOND ms obtain response where
      cfg': "cfg' = (END, apply_update state
               \<lparr>upd_messages = [ToolMsg ''Here is your structured response'' (tc_id tc)],
                upd_final_response = Some response\<rparr>)"
      by (auto simp: workflow1_def respond1_def index_last_snoc split: sum.splits)
    with a ms show ?thesis
      by (simp add: apply_update_def all_answered_append answered_once_def)
  next
    case END
    with inv st cfg show ?thesis by auto
  qed
qed

lemma step_invariant2:
  assumes ids: "\<And>history c tcs. model history = Inr (c, tcs) \<Longrightarrow> distinct (map tc_id tcs)"
    and inv: "log_invariant 0 cfg"
    and st: "step (workflow2 model sm (ToolNode registry)) cfg = Inr cfg'"
  shows "log_invariant 0 cfg'"
proof -
  obtain n state where cfg: "cfg = (n, state)" by (cases cfg)
  show ?thesis
  proof (cases n)
    case AGENT
    from st cfg AGENT obtain c tcs r where
      m: "model (messages state) = Inr (c, tcs)"
      and r: "should_continue2 (apply_update state \<lparr>upd_messages = [Assistant c tcs], upd_final_response = None\<rparr>) = Inr r"
      and cfg': "cfg' = (conditional_edges r, apply_update state \<lparr>upd_messages = [Assistant c tcs], upd_final_response = None\<rparr>)"
      by (auto simp: workflow2_def call_model_def split: sum.splits prod.splits)
    from inv cfg AGENT have a: "all_answered (messages state)" by simp
    from ids m have d: "distinct (map tc_id tcs)" by blast
    show ?thesis
    proof (cases r)
      case Respond
      with r have "length tcs = 0"
        by (auto simp: should_continue2_def apply_update_def index_last_snoc split: if_splits)
      with a cfg' Respond show ?thesis by (simp add: apply_update_def)
    next
      case Continue
      with a d cfg' show ?thesis by (simp add: apply_update_def)
    qed
  next
    case TOOLS
    from inv cfg TOOLS obtain earlier c tcs where
      ms: "messages state = earlier @ [Assistant c tcs]" and a: "all_answered earlier"
      and d: "distinct (map tc_id tcs)" by auto
    from st cfg TOOLS ms obtain results where
      res: "run_tool_calls registry tcs = Inr results"
      and cfg': "cfg' = (AGENT, apply_update state \<lparr>upd_messages = results, upd_final_response = None\<rparr>)"
      by (auto simp: workflow2_def ToolNode_def index_last_snoc split: sum.splits)
    from run_tool_calls_results [OF res] d
    have "answered_once tcs results" and "all_answered results"
      by (simp_all add: answered_once_distinct)
    with a ms cfg' show ?thesis
      by (simp add: apply_update_def all_answered_append)
  next
    case RESPOND
    from inv cfg RESPOND obtain earlier c where
      ms: "messages state = earlier @ [Assistant c []]" and a: "all_answered earlier"
      by auto
    from st cfg RESPOND obtain u where
      u: "respond2 sm state = Inr u" and cfg': "cfg' = (END, apply_update state u)"
      by (auto simp: workflow2_def split: sum.splits)
    from u have "upd_messages u = []"
      by (auto simp: respond2_def split: sum.splits)
    with a ms cfg' show ?thesis
      by (simp add: apply_update_def all_answered_append answered_once_def)
  next
    case END
    with inv st cfg show ?thesis by auto
  qed
qed

lemma steps_invariant:
  assumes pres: "\<And>cfg cfg'. P cfg \<Longrightarrow> step g cfg = Inr cfg' \<Longrightarrow> P cfg'"
  shows "P cfg \<Longrightarrow> steps k g cfg = Inr cfg' \<Longrightarrow> P cfg'"
proof (induction k arbitrary: cfg)
  case 0
  then show ?case by simp
next
  case (Suc k)
  then show ?case by (auto split: sum.splits dest: pres)
qed

lemma log_invariant_paired:
  "log_invariant k (n, state) \<Longrightarrow>
   paired_before_next (messages state) \<and> (n = END \<longrightarrow> all_answered (messages state))"
  by (cases n) (auto simp: paired_before_next_append all_answered_paired)

lemma step_origin:
  assumes inv: "answer_origin model vf vs cfg"
    and st: "step (workflow1 model vf vs tool_node) cfg = Inr cfg'"
  shows "answer_origin model vf vs cfg'"
proof -
  obtain n state where cfg: "cfg = (n, state)" by (cases cfg)
  show ?thesis
  proof (cases n)
    case AGENT
    from st cfg AGENT obtain c tcs r where
      m: "model (messages state) = Inr (c, tcs)"
      and r: "should_continue1 (apply_update state \<lparr>upd_messages = [Assistant c tcs], upd_final_response = None\<rparr>) = Inr r"
      and cfg': "cfg' = (conditional_edges r, apply_update state \<lparr>upd_messages = [Assistant c tcs], upd_final_response = None\<rparr>)"
      by (auto simp: workflow1_def call_model_def split: sum.splits prod.splits)
    show ?thesis
    proof (cases r)
      case Respond
      with r obtain tc where "tcs = [tc]" and "tc_name tc = ''WeatherResponse''"
        by (cases tcs)
           (auto simp: should_continue1_def apply_update_def index_last_snoc split: if_splits)
      with m cfg' Respond show ?thesis
        by (auto simp: apply_update_def index_last_snoc)
    next
      case Continue
      with cfg' show ?thesis by simp
    qed
  next
    case TOOLS
    with st cfg show ?thesis by (auto split: sum.splits)
  next
    case RESPOND
    from inv cfg RESPOND obtain history c tc where
      l: "index_last (messages state) = Inr (Assistant c [tc])"
      and m: "model history = Inr (c, [tc])" and nm: "tc_name tc = ''WeatherResponse''"
      by auto
    from st cfg RESPOND l obtain response where
      "WeatherResponse_init vf vs (tc_args tc) = Inr response"
      and "cfg' = (END, apply_update state
               \<lparr>upd_messages = [ToolMsg ''Here is your structured response'' (tc_id tc)],
                upd_final_response = Some response\<rparr>)"
      by (auto simp: workflow1_def respond1_def split: sum.splits)
    with m nm show ?thesis
      by (auto simp: apply_update_def)
  next
    case END
    with st cfg have "cfg' = cfg" by simp
    with inv show ?thesis by simp
  qed
qed

lemma run_origin:
  "answer_origin model vf vs cfg \<Longrightarrow>
   run fuel (workflow1 model vf vs tool_node) cfg = Some (Inr state') \<Longrightarrow>
   answer_origin model vf vs (END, state')"
proof (induction fuel arbitrary: cfg)
  case 0
  then show ?case by (cases cfg; cases "fst cfg") auto
next
  case (Suc fuel)
  obtain n state where cfg: "cfg = (n, state)" by (cases cfg)
  show ?case
  proof (cases "n = END")
    case True
    with Suc.prems cfg show ?thesis by simp
  next
    case False
    with Suc.prems(2) cfg obtain cfg' where
      st: "step (workflow1 model vf vs tool_node) cfg = Inr cfg'"
      and r: "run fuel (workflow1 model vf vs tool_node) cfg' = Some (Inr state')"
      by (cases n) (auto split: sum.splits)
    from step_origin [OF Suc.prems(1) st] r show ?thesis
      by (rule Suc.IH)
  qed
qed

lemma run_tool_calls_append_fail:
  "run_tool_calls registry before = Inr results \<Longrightarrow>
   run_tool_calls registry (tc # rest) = Inl e \<Longrightarrow>
   run_tool_calls registry (before @ tc # rest) = Inl e"
  by (induction before arbitrary: results) (auto split: option.splits sum.splits)

lemma invoke_origin:
  assumes "invoke fuel (workflow1 model vf vs tool_node) seed = Some (Inr response)"
  shows "\<exists>history c tc. model history = Inr (c, [tc]) \<and> tc_name tc = ''WeatherResponse''
           \<and> WeatherResponse_init vf vs (tc_args tc) = Inr response"
proof -
  from assms obtain state' where
    r: "run fuel (workflow1 model vf vs tool_node) (AGENT, initial seed) = Some (Inr state')"
    and f: "final_response state' = Some response"
    by (auto simp: invoke_def split: option.splits sum.splits)
  have "answer_origin model vf vs (AGENT, initial seed)" by simp
  from run_origin [OF this r] f show ?thesis by auto
qed

lemma recorded_ids:
  "recorded_model history = Inr (c, tcs) \<Longrightarrow> distinct (map tc_id tcs)"
  by (auto simp: recorded_model_def split: if_splits)

lemma recorded_run:
  "invoke 4 (workflow1 recorded_model accept_float accept_str (ToolNode (tools1 schema_tool)))
     ''what's the weather in Lille?''
   = Some (Inr [(''temperature'', PFloat 65), (''wind_directon'', PStr ''N''),
                (''wind_speed'', PFloat 15)])"
  by (simp add: invoke_def initial_def eval_nat_numeral workflow1_def call_model_def
      recorded_model_def apply_update_def should_continue1_def index_last_def ToolNode_def
      tools1_def get_weather_tool_def respond1_def WeatherResponse_init_def BaseModel_init_def
      WeatherResponse_fields_def)

lemma recorded_steps:
  "steps 4 (workflow1 recorded_model accept_float accept_str (ToolNode (tools1 schema_tool)))
     (AGENT, initial ''what's the weather in Lille?'')
   = Inr (END,
       \<lparr>messages =
          [Human ''what's the weather in Lille?'',
           Assistant [] [\<lparr>tc_name = ''get_weather'', tc_args = [(''city'', PStr ''lille'')],
                          tc_id = ''call_1''\<rparr>],
           ToolMsg ''It is 65 degrees and raining in Lille, with 3 mph winds in the South-East direction'' ''call_1'',
           Assistant [] [\<lparr>tc_name = ''WeatherResponse'',
                          tc_args = [(''temperature'', PFloat 65), (''wind_directon'', PStr ''N''),
                                     (''wind_speed'', PFloat 15)],
                          tc_id = ''call_2''\<rparr>],
           ToolMsg ''Here is your structured response'' ''call_2''],
        final_response = Some [(''temperature'', PFloat 65), (''wind_directon'', PStr ''N''),
                (''wind_speed'', PFloat 15)]\<rparr>)"
  by (simp add: initial_def eval_nat_numeral workflow1_def call_model_def
      recorded_model_def apply_update_def should_continue1_def index_last_def ToolNode_def
      tools1_def get_weather_tool_def respond1_def WeatherResponse_init_def BaseModel_init_def
      WeatherResponse_fields_def)

section \<open>Theorems about runs of the graph\<close>

text \<open>
  C4. Provided the tool calls of each model reply have distinct ids (ids are unique
  within a conversation), every log a run of either graph reaches satisfies the pairing
  invariant: the tool calls of a model reply that is followed by another model reply
  are each answered by exactly one tool message with the same id in between. At \<^verbatim>\<open>END\<close>
  the last reply is answered as well; in option 1 that is the schema call, never
  executed, for which \<^verbatim>\<open>respond\<close> adds a tool message carrying the call's id.
\<close>

theorem pairing_invariant:
  assumes ids: "\<forall>history c tcs. model history = Inr (c, tcs) \<longrightarrow> distinct (map tc_id tcs)"
  shows "(steps k (workflow1 model vf vs (ToolNode registry)) (AGENT, initial seed)
            = Inr (n, state) \<longrightarrow>
          paired_before_next (messages state) \<and> (n = END \<longrightarrow> all_answered (messages state)))
       \<and> (steps k (workflow2 model sm (ToolNode registry)) (AGENT, initial seed)
            = Inr (n2, state2) \<longrightarrow>
          paired_before_next (messages state2) \<and> (n2 = END \<longrightarrow> all_answered (messages state2)))
       \<and> (respond1 vf vs
            \<lparr>messages = earlier @ [Assistant c [schema_call]], final_response = fr\<rparr> = Inr u \<longrightarrow>
          upd_messages u = [ToolMsg ''Here is your structured response'' (tc_id schema_call)])"
proof (intro conjI impI)
  have d: "\<And>history c tcs. model history = Inr (c, tcs) \<Longrightarrow> distinct (map tc_id tcs)"
    using ids by blast
  have start1: "log_invariant 1 (AGENT, initial seed :: 'a AgentState)"
    by (simp add: initial_def)
  have start0: "log_invariant 0 (AGENT, initial seed :: 'a AgentState)"
    by (simp add: initial_def)
  {
    assume run1: "steps k (workflow1 model vf vs (ToolNode registry)) (AGENT, initial seed)
            = Inr (n, state)"
    have "log_invariant 1 (n, state)"
      by (rule steps_invariant [where P = "log_invariant 1", OF _ start1 run1])
         (rule step_invariant1 [OF d])
    from log_invariant_paired [OF this]
    show "paired_before_next (messages state)" and "n = END \<Longrightarrow> all_answered (messages state)"
      by simp_all
  }
  {
    assume run2: "steps k (workflow2 model sm (ToolNode registry)) (AGENT, initial seed)
            = Inr (n2, state2)"
    have "log_invariant 0 (n2, state2)"
      by (rule steps_invariant [where P = "log_invariant 0", OF _ start0 run2])
         (rule step_invariant2 [OF d])
    from log_invariant_paired [OF this]
    show "paired_before_next (messages state2)" and "n2 = END \<Longrightarrow> all_answered (messages state2)"
      by simp_all
  }
  {
    assume "respond1 vf vs
            \<lparr>messages = earlier @ [Assistant c [schema_call]], final_response = fr\<rparr> = Inr u"
    then show "upd_messages u = [ToolMsg ''Here is your structured response'' (tc_id schema_call)]"
      by (auto simp: respond1_def index_last_snoc split: sum.splits)
  }
qed

theorem pairing_invariant_witness:
  "steps 4 (workflow1 recorded_model accept_float accept_str (ToolNode (tools1 (\<lambda>args. Inr []))))
     (AGENT, initial ''what's the weather in Lille?'')
   = Inr (END,
       \<lparr>messages =
          [Human ''what's the weather in Lille?'',
           Assistant [] [\<lparr>tc_name = ''get_weather'', tc_args = [(''city'', PStr ''lille'')],
                          tc_id = ''call_1''\<rparr>],
           ToolMsg ''It is 65 degrees and raining in Lille, with 3 mph winds in the South-East direction'' ''call_1'',
           Assistant [] [\<lparr>tc_name = ''WeatherResponse'',
                          tc_args = [(''temperature'', PFloat 65), (''wind_directon'', PStr ''N''),
                                     (''wind_speed'', PFloat 15)],
                          tc_id = ''call_2''\<rparr>],
           ToolMsg ''Here is your structured response'' ''call_2''],
        final_response = Some [(''temperature'', PFloat 65), (''wind_directon'', PStr ''N''),
                (''wind_speed'', PFloat 15)]\<rparr>)
   \<and> all_answered
       [Human ''what's the weather in Lille?'',
        Assistant [] [\<lparr>tc_name = ''get_weather'', tc_args = [(''city'', PStr ''lille'')],
                       tc_id = ''call_1''\<rparr>],
        ToolMsg ''It is 65 degrees and raining in Lille, with 3 mph winds in the South-East direction'' ''call_1'',
        Assistant [] [\<lparr>tc_name = ''WeatherResponse'',
                       tc_args = [(''temperature'', PFloat (65::real)), (''wind_directon'', PStr ''N''),
                                  (''wind_speed'', PFloat 15)],
                       tc_id = ''call_2''\<rparr>],
        ToolMsg ''Here is your structured response'' ''call_2'']"
proof -
  have ids: "\<forall>history c tcs. recorded_model history = Inr (c, tcs) \<longrightarrow> distinct (map tc_id tcs)"
    using recorded_ids by blast
  let ?final = "\<lparr>messages =
          [Human ''what's the weather in Lille?'',
           Assistant [] [\<lparr>tc_name = ''get_weather'', tc_args = [(''city'', PStr ''lille'')],
                          tc_id = ''call_1''\<rparr>],
           ToolMsg ''It is 65 degrees and raining in Lille, with 3 mph winds in the South-East direction'' ''call_1'',
           Assistant [] [\<lparr>tc_name = ''WeatherResponse'',
                          tc_args = [(''temperature'', PFloat (65::real)), (''wind_directon'', PStr ''N''),
                                     (''wind_speed'', PFloat 15)],
                          tc_id = ''call_2''\<rparr>],
           ToolMsg ''Here is your structured response'' ''call_2''],
        final_response = Some [(''temperature'', PFloat 65), (''wind_directon'', PStr ''N''),
                (''wind_speed'', PFloat 15)]\<rparr>"
  note run = recorded_steps [of "\<lambda>args. Inr []"]
  have "steps 4 (workflow1 recorded_model accept_float accept_str
           (ToolNode (tools1 (\<lambda>args. Inr [])))) (AGENT, initial ''what's the weather in Lille?'')
          = Inr (END, ?final) \<longrightarrow>
        paired_before_next (messages ?final) \<and> (END = END \<longrightarrow> all_answered (messages ?final))"
    by (rule pairing_invariant [OF ids, THEN conjunct1])
  with run have "all_answered (messages ?final)"
    by blast
  with run show ?thesis by simp
qed

text \<open>
  C7, as stated, fails. With the seed of scenario A, a model that asks for the weather
  in Lille and then answers with the arguments the notebook's own output cell shows,
  the final record has wind direction \<^verbatim>\<open>N\<close> and wind speed 15: neither is derived from
  the tool's text.
\<close>

theorem scenario_A_recorded_answer:
  "invoke 4 (workflow1 recorded_model accept_float accept_str (ToolNode (tools1 (\<lambda>args. Inr []))))
     ''what's the weather in Lille?''
   = Some (Inr [(''temperature'', PFloat 65), (''wind_directon'', PStr ''N''),
                (''wind_speed'', PFloat 15)])"
  by (rule recorded_run)

text \<open>
  C7, amended. The tool answers \<^verbatim>\<open>lille\<close> with the text that mentions 65 degrees and 3
  mph winds in the South-East direction, and the final record of a completed
  invocation of option 1 is what validation returns for the arguments of a reply of
  the model whose only tool call is the schema call: the code takes every field from
  the model's arguments and none from the tool's text.
\<close>

theorem scenario_A_final_record:
  "get_weather ''lille'' =
     Inr ''It is 65 degrees and raining in Lille, with 3 mph winds in the South-East direction''
   \<and> (invoke fuel (workflow1 model vf vs tool_node) seed = Some (Inr response) \<longrightarrow>
       (\<exists>history c tc. model history = Inr (c, [tc]) \<and> tc_name tc = ''WeatherResponse''
          \<and> WeatherResponse_init vf vs (tc_args tc) = Inr response))"
  using invoke_origin [of fuel model vf vs tool_node seed response] by simp

theorem scenario_A_final_record_witness:
  "get_weather ''lille'' =
     Inr ''It is 65 degrees and raining in Lille, with 3 mph winds in the South-East direction''
   \<and> invoke 4 (workflow1 recorded_model accept_float accept_str (ToolNode (tools1 (\<lambda>args. Inr []))))
       ''what's the weather in Lille?''
     = Some (Inr [(''temperature'', PFloat 65), (''wind_directon'', PStr ''N''),
                  (''wind_speed'', PFloat 15)])
   \<and> (\<exists>history c tc. recorded_model history = Inr (c, [tc]) \<and> tc_name tc = ''WeatherResponse''
        \<and> WeatherResponse_init accept_float accept_str (tc_args tc)
          = Inr [(''temperature'', PFloat 65), (''wind_directon'', PStr ''N''),
                 (''wind_speed'', PFloat 15)])"
proof -
  note run = recorded_run [of "\<lambda>args. Inr []"]
  from scenario_A_final_record [of 4 recorded_model accept_float accept_str
      "ToolNode (tools1 (\<lambda>args. Inr []))" "''what's the weather in Lille?''"
      "[(''temperature'', PFloat 65), (''wind_directon'', PStr ''N''), (''wind_speed'', PFloat 15)]"]
    run
  show ?thesis by blast
qed

section \<open>Lemmas about the records and the tool\<close>

lemma WeatherResponse_init_Inr_iff:
  "WeatherResponse_init vf vs kwargs = Inr r \<longleftrightarrow>
     (\<exists>t d w t' d' w'.
        map_of kwargs ''temperature'' = Some t \<and> vf t = Some t'
        \<and> map_of kwargs ''wind_directon'' = Some d \<and> vs d = Some d'
        \<and> map_of kwargs ''wind_speed'' = Some w \<and> vf w = Some w'
        \<and> r = [(''temperature'', PFloat t'), (''wind_directon'', PStr d'),
                (''wind_speed'', PFloat w')])"
  unfolding WeatherResponse_init_def BaseModel_init_def WeatherResponse_fields_def
  by (auto split: prod.splits option.splits if_splits)

lemma respond1_record:
  "respond1 vf vs state = Inr u \<Longrightarrow>
   \<exists>t d w. upd_final_response u =
     Some [(''temperature'', PFloat t), (''wind_directon'', PStr d), (''wind_speed'', PFloat w)]"
  unfolding respond1_def
  by (auto split: sum.splits list.splits dest: WeatherResponse_init_shape)

lemma respond2_record:
  "respond2 (with_structured_output vf vs schema_model) state = Inr u \<Longrightarrow>
   \<exists>t d w. upd_final_response u =
     Some [(''temperature'', PFloat t), (''wind_directon'', PStr d), (''wind_speed'', PFloat w)]"
  unfolding respond2_def with_structured_output_def
  by (auto split: sum.splits dest: WeatherResponse_init_shape)

lemma conditional_edges_not_END: "conditional_edges r \<noteq> END"
  by (cases r) simp_all

lemma run_respond_record:
  assumes resp: "\<And>state u. respond_node g state = Inr u \<Longrightarrow>
                   \<exists>r. upd_final_response u = Some r \<and> Q r"
  shows "n \<noteq> END \<Longrightarrow> run fuel g (n, state) = Some (Inr state') \<Longrightarrow>
         \<exists>r. final_response state' = Some r \<and> Q r"
proof (induction fuel arbitrary: n state)
  case 0
  then show ?case by (cases n) auto
next
  case (Suc fuel)
  from Suc.prems obtain n' s' where
    st: "step g (n, state) = Inr (n', s')" and r: "run fuel g (n', s') = Some (Inr state')"
    by (cases n) (auto split: sum.splits)
  show ?case
  proof (cases "n' = END")
    case False
    from Suc.IH [OF False r] show ?thesis .
  next
    case True
    with r have s': "state' = s'" by simp
    from st True have st': "step g (n, state) = Inr (END, s')" by simp
    have "\<exists>u. respond_node g state = Inr u \<and> s' = apply_update state u"
    proof (cases n)
      case AGENT
      with st' show ?thesis
        by (simp split: sum.splits add: conditional_edges_not_END)
    next
      case TOOLS
      with st' show ?thesis by (simp split: sum.splits)
    next
      case RESPOND
      with st' show ?thesis by (simp split: sum.splits)
    next
      case END
      with Suc.prems(1) show ?thesis by simp
    qed
    then obtain u where
      "respond_node g state = Inr u" and "s' = apply_update state u"
      by blast
    with resp [of state u] s' show ?thesis
      by (auto simp: apply_update_def)
  qed
qed

lemma invoke_record:
  assumes resp: "\<And>state u. respond_node g state = Inr u \<Longrightarrow>
                   \<exists>r. upd_final_response u = Some r \<and> Q r"
    and inv: "invoke fuel g seed = Some (Inr response)"
  shows "Q response"
proof -
  from inv obtain state' where
    r: "run fuel g (AGENT, initial seed) = Some (Inr state')"
    and f: "final_response state' = Some response"
    by (auto simp: invoke_def split: option.splits sum.splits)
  from run_respond_record [of g Q AGENT fuel "initial seed" state', OF resp _ r] f
  show ?thesis by auto
qed

lemma get_weather_tool_never_executes_failure:
  "get_weather_tool args \<noteq> Inl (ToolExecutionError e)"
  by (auto simp: get_weather_tool_def split: option.splits pyval.splits)

lemma get_weather_tool_unsupported_city:
  "city \<notin> {''paris'', ''lille'', ''marseille''} \<Longrightarrow>
   get_weather_tool [(''city'', PStr city)] = Inl (ToolArgumentError ''city'')"
  by (simp add: get_weather_tool_def)

lemma ToolNode_unsupported_city:
  assumes "city \<notin> {''paris'', ''lille'', ''marseille''}"
    and "run_tool_calls (tools1 schema_tool) before = Inr results"
    and "index_last (messages state) =
      Inr (Assistant c (before @ \<lparr>tc_name = ''get_weather'', tc_args = [(''city'', PStr city)], tc_id = i\<rparr> # rest))"
  shows "ToolNode (tools1 schema_tool) state = Inl (ToolArgumentError ''city'')"
proof -
  have "run_tool_calls (tools1 schema_tool)
      (\<lparr>tc_name = ''get_weather'', tc_args = [(''city'', PStr city)], tc_id = i\<rparr> # rest)
    = Inl (ToolArgumentError ''city'')"
    using assms(1) by (simp add: tools1_def get_weather_tool_def)
  from run_tool_calls_append_fail [OF assms(2) this] assms(3) show ?thesis
    by (simp add: ToolNode_def)
qed


section \<open>Theorems about the records and the tool\<close>

text \<open>
  C3, amended. Whenever the node that responds succeeds, in option 1 and in option 2,
  and whenever an invocation of either graph returns a record, the record holds exactly
  the three declared fields, in the declared order, a float for \<^verbatim>\<open>temperature\<close>, a str
  for \<^verbatim>\<open>wind_directon\<close> and a float for \<^verbatim>\<open>wind_speed\<close>; otherwise the node fails.
  Validation returns a record exactly when each declared field is given and passes its
  validator, and that record holds the three validated values, so no record has a
  field missing. Arguments under any other key are ignored, not rejected: dropping
  them from the arguments changes nothing.
\<close>

theorem finalizer_record_complete:
  "(respond1 vf vs state = Inr u \<longrightarrow>
      (\<exists>t d w. upd_final_response u =
         Some [(''temperature'', PFloat t), (''wind_directon'', PStr d),
               (''wind_speed'', PFloat w)]))
   \<and> (respond2 (with_structured_output vf vs schema_model) state = Inr u2 \<longrightarrow>
      (\<exists>t d w. upd_final_response u2 =
         Some [(''temperature'', PFloat t), (''wind_directon'', PStr d),
               (''wind_speed'', PFloat w)]))
   \<and> (invoke fuel (workflow1 model vf vs tool_node) seed = Some (Inr response) \<longrightarrow>
      (\<exists>t d w. response =
         [(''temperature'', PFloat t), (''wind_directon'', PStr d), (''wind_speed'', PFloat w)]))
   \<and> (invoke fuel (workflow2 model (with_structured_output vf vs schema_model) tool_node) seed
        = Some (Inr response2) \<longrightarrow>
      (\<exists>t d w. response2 =
         [(''temperature'', PFloat t), (''wind_directon'', PStr d), (''wind_speed'', PFloat w)]))
   \<and> (WeatherResponse_init vf vs kwargs = Inr r \<longleftrightarrow>
      (\<exists>t d w t' d' w'.
         map_of kwargs ''temperature'' = Some t \<and> vf t = Some t'
         \<and> map_of kwargs ''wind_directon'' = Some d \<and> vs d = Some d'
         \<and> map_of kwargs ''wind_speed'' = Some w \<and> vf w = Some w'
         \<and> r = [(''temperature'', PFloat t'), (''wind_directon'', PStr d'),
                 (''wind_speed'', PFloat w')]))
   \<and> WeatherResponse_init vf vs
        (filter (\<lambda>kv. fst kv \<in> {''temperature'', ''wind_directon'', ''wind_speed''}) kwargs)
      = WeatherResponse_init vf vs kwargs"
proof (intro conjI impI)
  let ?Q = "\<lambda>r. \<exists>t d w. r =
         [(''temperature'', PFloat t), (''wind_directon'', PStr d), (''wind_speed'', PFloat w)]"
  show "\<exists>t d w. upd_final_response u =
         Some [(''temperature'', PFloat t), (''wind_directon'', PStr d),
               (''wind_speed'', PFloat w)]"
    if "respond1 vf vs state = Inr u"
    using that by (rule respond1_record)
  show "\<exists>t d w. upd_final_response u2 =
         Some [(''temperature'', PFloat t), (''wind_directon'', PStr d),
               (''wind_speed'', PFloat w)]"
    if "respond2 (with_structured_output vf vs schema_model) state = Inr u2"
    using that by (rule respond2_record)
  show "?Q response"
    if inv: "invoke fuel (workflow1 model vf vs tool_node) seed = Some (Inr response)"
  proof (rule invoke_record [where Q = ?Q, OF _ inv])
    fix state u
    assume "respond_node (workflow1 model vf vs tool_node) state = Inr u"
    then have "respond1 vf vs state = Inr u" by (simp add: workflow1_def)
    from respond1_record [OF this]
    show "\<exists>r. upd_final_response u = Some r \<and> ?Q r" by blast
  qed
  show "?Q response2"
    if inv: "invoke fuel (workflow2 model (with_structured_output vf vs schema_model) tool_node)
               seed = Some (Inr response2)"
  proof (rule invoke_record [where Q = ?Q, OF _ inv])
    fix state u
    assume "respond_node (workflow2 model (with_structured_output vf vs schema_model) tool_node)
              state = Inr u"
    then have "respond2 (with_structured_output vf vs schema_model) state = Inr u"
      by (simp add: workflow2_def)
    from respond2_record [OF this]
    show "\<exists>r. upd_final_response u = Some r \<and> ?Q r" by blast
  qed
  show "WeatherResponse_init vf vs kwargs = Inr r \<longleftrightarrow>
      (\<exists>t d w t' d' w'.
         map_of kwargs ''temperature'' = Some t \<and> vf t = Some t'
         \<and> map_of kwargs ''wind_directon'' = Some d \<and> vs d = Some d'
         \<and> map_of kwargs ''wind_speed'' = Some w \<and> vf w = Some w'
         \<and> r = [(''temperature'', PFloat t'), (''wind_directon'', PStr d'),
                 (''wind_speed'', PFloat w')])"
    by (rule WeatherResponse_init_Inr_iff)
  show "WeatherResponse_init vf vs
        (filter (\<lambda>kv. fst kv \<in> {''temperature'', ''wind_directon'', ''wind_speed''}) kwargs)
      = WeatherResponse_init vf vs kwargs"
  proof -
    have key: "map_of
        (filter (\<lambda>kv. fst kv \<in> {''temperature'', ''wind_directon'', ''wind_speed''}) kwargs) k
      = (if k \<in> {''temperature'', ''wind_directon'', ''wind_speed''}
         then map_of kwargs k else None)" for k
      by (rule map_of_filter_key)
    show ?thesis
      by (rule WeatherResponse_init_cong; simp only: key; simp)
  qed
qed

theorem finalizer_record_complete_witness:
  "respond1 accept_float accept_str
     \<lparr>messages =
        [Assistant []
          [\<lparr>tc_name = ''WeatherResponse'',
            tc_args = [(''temperature'', PFloat (70::real)), (''wind_directon'', PStr ''NE''),
                       (''wind_speed'', PFloat 8)],
            tc_id = ''call_2''\<rparr>]],
      final_response = None\<rparr>
   = Inr \<lparr>upd_messages = [ToolMsg ''Here is your structured response'' ''call_2''],
          upd_final_response =
            Some [(''temperature'', PFloat 70), (''wind_directon'', PStr ''NE''),
                  (''wind_speed'', PFloat 8)]\<rparr>
   \<and> respond2
       (with_structured_output accept_float accept_str
          (\<lambda>input. Inr [(''temperature'', PFloat (70::real)), (''wind_directon'', PStr ''NE''),
                          (''wind_speed'', PFloat 8)]))
       \<lparr>messages = [Human ''what's the weather in Paris?'', ToolMsg ''It is cloudy'' ''call_1'',
                    Assistant ''It is cloudy in Paris'' []],
        final_response = None\<rparr>
     = Inr \<lparr>upd_messages = [],
            upd_final_response =
              Some [(''temperature'', PFloat 70), (''wind_directon'', PStr ''NE''),
                    (''wind_speed'', PFloat 8)]\<rparr>
   \<and> WeatherResponse_init accept_float accept_str
       [(''temperature'', PFloat (70::real)), (''wind_directon'', PStr ''NE''),
        (''wind_speed'', PFloat 8)]
     = Inr [(''temperature'', PFloat 70), (''wind_directon'', PStr ''NE''),
            (''wind_speed'', PFloat 8)]
   \<and> WeatherResponse_init accept_float accept_str
       [(''temperature'', PFloat (70::real)), (''wind_speed'', PFloat 8)]
     = Inl (ValidationError [''wind_directon''])"
proof -
  let ?args = "[(''temperature'', PFloat (70::real)), (''wind_directon'', PStr ''NE''),
               (''wind_speed'', PFloat 8)]"
  have iff: "WeatherResponse_init accept_float accept_str ?args = Inr ?args \<longleftrightarrow>
      (\<exists>t d w t' d' w'.
         map_of ?args ''temperature'' = Some t \<and> accept_float t = Some t'
         \<and> map_of ?args ''wind_directon'' = Some d \<and> accept_str d = Some d'
         \<and> map_of ?args ''wind_speed'' = Some w \<and> accept_float w = Some w'
         \<and> ?args = [(''temperature'', PFloat t'), (''wind_directon'', PStr d'),
                 (''wind_speed'', PFloat w')])"
    using finalizer_record_complete [of accept_float accept_str _ _ _ _ _ _ _ _ _ _ ?args ?args]
    by blast
  have init: "WeatherResponse_init accept_float accept_str ?args = Inr ?args"
    unfolding iff by simp
  have bad: "WeatherResponse_init accept_float accept_str
       [(''temperature'', PFloat (70::real)), (''wind_speed'', PFloat 8)]
     = Inl (ValidationError [''wind_directon''])"
    by (simp add: WeatherResponse_init_def BaseModel_init_def WeatherResponse_fields_def)
  from init bad show ?thesis
    by (simp add: respond1_def respond2_def with_structured_output_def index_last_def
        index_second_last_def)
qed

text \<open>
  C10. The schema's field for the wind direction is named \<^verbatim>\<open>wind_directon\<close>, and no
  declared field is named \<^verbatim>\<open>wind_direction\<close>. Every record the responding node
  builds, in option 1 and in option 2, has the fields \<^verbatim>\<open>temperature\<close>,
  \<^verbatim>\<open>wind_directon\<close>, \<^verbatim>\<open>wind_speed\<close> and none named \<^verbatim>\<open>wind_direction\<close>; given valid values
  under the declared names the node of option 1 does build the record, with the
  direction under \<^verbatim>\<open>wind_directon\<close>. An argument keyed \<^verbatim>\<open>wind_direction\<close> changes
  nothing in what validation returns, and arguments that give the direction under that
  key only are refused with \<^verbatim>\<open>wind_directon\<close> among the failing fields.
\<close>

theorem wind_directon_field_name:
  "map fst WeatherResponse_fields = [''temperature'', ''wind_directon'', ''wind_speed'']
   \<and> ''wind_direction'' \<notin> set (map fst WeatherResponse_fields)
   \<and> (respond1 vf vs state = Inr u \<longrightarrow>
      (\<exists>r. upd_final_response u = Some r
         \<and> map fst r = [''temperature'', ''wind_directon'', ''wind_speed'']
         \<and> ''wind_direction'' \<notin> set (map fst r)))
   \<and> (respond2 (with_structured_output vf vs schema_model) state = Inr u2 \<longrightarrow>
      (\<exists>r. upd_final_response u2 = Some r
         \<and> map fst r = [''temperature'', ''wind_directon'', ''wind_speed'']
         \<and> ''wind_direction'' \<notin> set (map fst r)))
   \<and> (vf t = Some t' \<and> vs d = Some d' \<and> vf w = Some w' \<longrightarrow>
      respond1 vf vs
        \<lparr>messages = earlier @
           [Assistant c
             (\<lparr>tc_name = name,
               tc_args = [(''temperature'', t), (''wind_directon'', d), (''wind_speed'', w)],
               tc_id = i\<rparr> # rest)],
         final_response = fr\<rparr>
      = Inr \<lparr>upd_messages = [ToolMsg ''Here is your structured response'' i],
             upd_final_response =
               Some [(''temperature'', PFloat t'), (''wind_directon'', PStr d'),
                     (''wind_speed'', PFloat w')]\<rparr>)
   \<and> WeatherResponse_init vf vs ((''wind_direction'', v) # kwargs)
      = WeatherResponse_init vf vs kwargs
   \<and> (\<exists>errors. WeatherResponse_init vf vs
         [(''temperature'', t), (''wind_direction'', d), (''wind_speed'', w)]
        = Inl (ValidationError errors) \<and> ''wind_directon'' \<in> set errors)"
proof (intro conjI impI)
  show "map fst WeatherResponse_fields = [''temperature'', ''wind_directon'', ''wind_speed'']"
    by (simp add: WeatherResponse_fields_def)
  show "''wind_direction'' \<notin> set (map fst WeatherResponse_fields)"
    by (simp add: WeatherResponse_fields_def)
  show "\<exists>r. upd_final_response u = Some r
         \<and> map fst r = [''temperature'', ''wind_directon'', ''wind_speed'']
         \<and> ''wind_direction'' \<notin> set (map fst r)"
    if "respond1 vf vs state = Inr u"
    using respond1_record [OF that] by auto
  show "\<exists>r. upd_final_response u2 = Some r
         \<and> map fst r = [''temperature'', ''wind_directon'', ''wind_speed'']
         \<and> ''wind_direction'' \<notin> set (map fst r)"
    if "respond2 (with_structured_output vf vs schema_model) state = Inr u2"
    using respond2_record [OF that] by auto
  show "respond1 vf vs
        \<lparr>messages = earlier @
           [Assistant c
             (\<lparr>tc_name = name,
               tc_args = [(''temperature'', t), (''wind_directon'', d), (''wind_speed'', w)],
               tc_id = i\<rparr> # rest)],
         final_response = fr\<rparr>
      = Inr \<lparr>upd_messages = [ToolMsg ''Here is your structured response'' i],
             upd_final_response =
               Some [(''temperature'', PFloat t'), (''wind_directon'', PStr d'),
                     (''wind_speed'', PFloat w')]\<rparr>"
    if "vf t = Some t' \<and> vs d = Some d' \<and> vf w = Some w'"
    using that
    by (simp add: respond1_def index_last_snoc WeatherResponse_init_def BaseModel_init_def
        WeatherResponse_fields_def)
  show "WeatherResponse_init vf vs ((''wind_direction'', v) # kwargs)
      = WeatherResponse_init vf vs kwargs"
    by (rule WeatherResponse_init_cong) simp_all
  show "\<exists>errors. WeatherResponse_init vf vs
         [(''temperature'', t), (''wind_direction'', d), (''wind_speed'', w)]
        = Inl (ValidationError errors) \<and> ''wind_directon'' \<in> set errors"
    unfolding WeatherResponse_init_def BaseModel_init_def WeatherResponse_fields_def
    by (auto split: option.splits)
qed

theorem wind_directon_field_name_witness:
  "accept_float (PFloat (65::real)) = Some 65 \<and> accept_str (PStr ''N'' :: real pyval) = Some ''N''
   \<and> accept_float (PFloat (15::real)) = Some 15
   \<and> respond1 accept_float accept_str
       \<lparr>messages = [Human ''what's the weather in Lille?''] @
          [Assistant []
            (\<lparr>tc_name = ''WeatherResponse'',
              tc_args = [(''temperature'', PFloat (65::real)), (''wind_directon'', PStr ''N''),
                         (''wind_speed'', PFloat 15)],
              tc_id = ''call_2''\<rparr> # [])],
        final_response = None\<rparr>
     = Inr \<lparr>upd_messages = [ToolMsg ''Here is your structured response'' ''call_2''],
            upd_final_response =
              Some [(''temperature'', PFloat 65), (''wind_directon'', PStr ''N''),
                    (''wind_speed'', PFloat 15)]\<rparr>
   \<and> map fst [(''temperature'', PFloat (65::real)), (''wind_directon'', PStr ''N''),
               (''wind_speed'', PFloat 15)]
     = [''temperature'', ''wind_directon'', ''wind_speed'']"
proof -
  have v: "accept_float (PFloat (65::real)) = Some 65
      \<and> accept_str (PStr ''N'' :: real pyval) = Some ''N''
      \<and> accept_float (PFloat (15::real)) = Some 15"
    by simp
  have "accept_float (PFloat (65::real)) = Some 65
      \<and> accept_str (PStr ''N'' :: real pyval) = Some ''N''
      \<and> accept_float (PFloat (15::real)) = Some 15 \<longrightarrow>
    respond1 accept_float accept_str
       \<lparr>messages = [Human ''what's the weather in Lille?''] @
          [Assistant []
            (\<lparr>tc_name = ''WeatherResponse'',
              tc_args = [(''temperature'', PFloat (65::real)), (''wind_directon'', PStr ''N''),
                         (''wind_speed'', PFloat 15)],
              tc_id = ''call_2''\<rparr> # [])],
        final_response = None\<rparr>
     = Inr \<lparr>upd_messages = [ToolMsg ''Here is your structured response'' ''call_2''],
            upd_final_response =
              Some [(''temperature'', PFloat 65), (''wind_directon'', PStr ''N''),
                    (''wind_speed'', PFloat 15)]\<rparr>"
    by (rule wind_directon_field_name
        [THEN conjunct2, THEN conjunct2, THEN conjunct2, THEN conjunct2, THEN conjunct1])
  with v show ?thesis by simp
qed

text \<open>
  C6, as stated, fails. A model that asks for the weather in London: the call does not
  satisfy the declared parameter contract of the tool, and the invocation ends with
  ToolArgumentError, not with ToolExecutionError.
\<close>

theorem unsupported_city_argument_error:
  "invoke 2
     (workflow1
        (\<lambda>history. Inr ([], [\<lparr>tc_name = ''get_weather'',
           tc_args = [(''city'', PStr ''london'')], tc_id = ''call_1''\<rparr>]))
        accept_float accept_str (ToolNode (tools1 (\<lambda>args. Inr []))))
     ''what's the weather in London?''
   = Some (Inl (ToolArgumentError ''city'') :: error + real WeatherResponse)
   \<and> ToolArgumentError ''city'' \<noteq> ToolExecutionError (AssertionError ''Unknown city'')"
  by (simp add: invoke_def initial_def numeral_2_eq_2 workflow1_def call_model_def
      apply_update_def should_continue1_def index_last_def ToolNode_def tools1_def
      get_weather_tool_def)

text \<open>
  C6, amended. The body of the tool raises the assertion error \<^verbatim>\<open>Unknown city\<close> exactly
  for a city outside paris, lille and marseille, but a tool call with such a city does
  not satisfy the declared parameter contract and is refused with ToolArgumentError
  before the body runs; the tool never ends with ToolExecutionError. When the routed
  reply holds such a call, and the tool calls before it in the same reply succeed, the
  tool node stops the run of either graph with ToolArgumentError; in particular, when
  the first reply of the model starts with such a call the invocation returns that
  error and no record.
\<close>

theorem unsupported_city_refused:
  assumes city: "city \<notin> {''paris'', ''lille'', ''marseille''}"
  shows "get_weather city = Inl (AssertionError ''Unknown city'')
       \<and> (get_weather any_city = Inl (AssertionError ''Unknown city'')
            \<longleftrightarrow> any_city \<notin> {''paris'', ''lille'', ''marseille''})
       \<and> get_weather_tool [(''city'', PStr city)] = Inl (ToolArgumentError ''city'')
       \<and> get_weather_tool args \<noteq> Inl (ToolExecutionError e)
       \<and> (run_tool_calls (tools1 schema_tool) before = Inr results
          \<and> index_last (messages (state :: 'f AgentState)) =
              Inr (Assistant c (before @ \<lparr>tc_name = ''get_weather'',
                     tc_args = [(''city'', PStr city)], tc_id = i\<rparr> # rest)) \<longrightarrow>
            run (Suc fuel) (workflow1 model vf vs (ToolNode (tools1 schema_tool))) (TOOLS, state)
              = Some (Inl (ToolArgumentError ''city''))
          \<and> run (Suc fuel) (workflow2 model sm (ToolNode (tools1 schema_tool))) (TOOLS, state)
              = Some (Inl (ToolArgumentError ''city'')))
       \<and> (model [Human seed] =
              Inr (c, \<lparr>tc_name = ''get_weather'', tc_args = [(''city'', PStr city)], tc_id = i\<rparr>
                        # rest) \<longrightarrow>
            invoke (Suc (Suc fuel)) (workflow1 model vf vs (ToolNode (tools1 schema_tool))) seed
              = Some (Inl (ToolArgumentError ''city''))
          \<and> invoke (Suc (Suc fuel)) (workflow2 model sm (ToolNode (tools1 schema_tool))) seed
              = Some (Inl (ToolArgumentError ''city'')))"
proof (intro conjI impI)
  let ?call = "\<lparr>tc_name = ''get_weather'', tc_args = [(''city'', PStr city)], tc_id = i\<rparr>"
  let ?err = "ToolArgumentError ''city''"
  show "get_weather city = Inl (AssertionError ''Unknown city'')"
    using city by simp
  show "get_weather any_city = Inl (AssertionError ''Unknown city'')
            \<longleftrightarrow> any_city \<notin> {''paris'', ''lille'', ''marseille''}"
    by simp
  show "get_weather_tool [(''city'', PStr city)] = Inl ?err"
    using city by (rule get_weather_tool_unsupported_city)
  show "get_weather_tool args \<noteq> Inl (ToolExecutionError e)"
    by (rule get_weather_tool_never_executes_failure)
  {
    assume a: "run_tool_calls (tools1 schema_tool) before = Inr results
          \<and> index_last (messages state) = Inr (Assistant c (before @ ?call # rest))"
    then have t: "ToolNode (tools1 schema_tool) state = Inl ?err"
      using ToolNode_unsupported_city [OF city, of schema_tool before results state c i rest]
      by simp
    then show "run (Suc fuel) (workflow1 model vf vs (ToolNode (tools1 schema_tool))) (TOOLS, state)
              = Some (Inl ?err)"
      by (simp add: workflow1_def)
    from t show "run (Suc fuel) (workflow2 model sm (ToolNode (tools1 schema_tool))) (TOOLS, state)
              = Some (Inl ?err)"
      by (simp add: workflow2_def)
  }
  {
    assume m: "model [Human seed] = Inr (c, ?call # rest)"
    let ?state = "\<lparr>messages = [Human seed, Assistant c (?call # rest)],
                   final_response = None :: 'f WeatherResponse option\<rparr>"
    have l: "index_last (messages ?state) = Inr (Assistant c ([] @ ?call # rest))"
      by (simp add: index_last_def)
    have e: "run_tool_calls (tools1 schema_tool) [] = Inr []"
      by simp
    have t: "ToolNode (tools1 schema_tool) ?state = Inl ?err"
      by (rule ToolNode_unsupported_city [OF city e l])
    have r1: "should_continue1 ?state = Inr Continue"
      by (simp add: should_continue1_def index_last_def)
    have r2: "should_continue2 ?state = Inr Continue"
      by (simp add: should_continue2_def index_last_def)
    from m t r1
    show "invoke (Suc (Suc fuel)) (workflow1 model vf vs (ToolNode (tools1 schema_tool))) seed
              = Some (Inl ?err)"
      by (simp add: invoke_def initial_def workflow1_def call_model_def apply_update_def)
    from m t r2
    show "invoke (Suc (Suc fuel)) (workflow2 model sm (ToolNode (tools1 schema_tool))) seed
              = Some (Inl ?err)"
      by (simp add: invoke_def initial_def workflow2_def call_model_def apply_update_def)
  }
qed

theorem unsupported_city_refused_witness:
  "get_weather ''berlin'' = Inl (AssertionError ''Unknown city'')
   \<and> get_weather_tool [(''city'', PStr ''berlin'' :: real pyval)]
      = Inl (ToolArgumentError ''city'')
   \<and> invoke 2
        (workflow1
           (\<lambda>history. Inr ([], [\<lparr>tc_name = ''get_weather'',
              tc_args = [(''city'', PStr ''berlin'')], tc_id = ''call_1''\<rparr>]))
           accept_float accept_str (ToolNode (tools1 (\<lambda>args. Inr []))))
        ''what's the weather in Berlin?''
      = Some (Inl (ToolArgumentError ''city'') :: error + real WeatherResponse)"
proof -
  let ?model = "(\<lambda>history. Inr ([], [\<lparr>tc_name = ''get_weather'',
          tc_args = [(''city'', PStr ''berlin'')], tc_id = ''call_1''\<rparr>])) :: real chat_model"
  have city: "''berlin'' \<notin> {''paris'', ''lille'', ''marseille''}"
    by simp
  have m: "?model [Human ''what's the weather in Berlin?'']
      = Inr ([], \<lparr>tc_name = ''get_weather'',
          tc_args = [(''city'', PStr ''berlin'')], tc_id = ''call_1''\<rparr> # [])"
    by simp
  note inst = unsupported_city_refused [OF city]
  have a: "get_weather ''berlin'' = Inl (AssertionError ''Unknown city'')"
    by (rule inst [THEN conjunct1])
  have b: "(get_weather_tool [(''city'', PStr ''berlin'' :: real pyval)])
      = Inl (ToolArgumentError ''city'')"
    by (rule inst [THEN conjunct2, THEN conjunct2, THEN conjunct1])
  have "?model [Human ''what's the weather in Berlin?'']
      = Inr ([], \<lparr>tc_name = ''get_weather'',
          tc_args = [(''city'', PStr ''berlin'')], tc_id = ''call_1''\<rparr> # []) \<longrightarrow>
    invoke (Suc (Suc 0))
        (workflow1 ?model accept_float accept_str (ToolNode (tools1 (\<lambda>args. Inr []))))
        ''what's the weather in Berlin?''
      = Some (Inl (ToolArgumentError ''city''))
    \<and> invoke (Suc (Suc 0))
        (workflow2 ?model (\<lambda>input. Inr []) (ToolNode (tools1 (\<lambda>args. Inr []))))
        ''what's the weather in Berlin?''
      = Some (Inl (ToolArgumentError ''city''))"
    by (rule inst [THEN conjunct2, THEN conjunct2, THEN conjunct2, THEN conjunct2,
          THEN conjunct2])
  with m have "invoke (Suc (Suc 0))
        (workflow1 ?model accept_float accept_str (ToolNode (tools1 (\<lambda>args. Inr []))))
        ''what's the weather in Berlin?''
      = Some (Inl (ToolArgumentError ''city''))"
    by blast
  with a b show ?thesis by (simp add: numeral_2_eq_2)
qed

end
